theory Spec2Isabelle
  imports Complex_Main "HOL-Library.AList" "HOL-Library.Log_Nat"
begin

section \<open>Conventions of the embedding\<close>

text \<open>
  The repository is a backtesting core written in Python: a portfolio ledger
  (\<^verbatim>\<open>src/risk/portfolio.py\<close>), a risk manager (\<^verbatim>\<open>src/risk/risk_manager.py\<close>), the
  performance metrics (\<^verbatim>\<open>src/risk/metrics.py\<close>) and the backtest engine
  (\<^verbatim>\<open>src/backtesting/backtest_engine.py\<close>).

  \<^item> Python \<^verbatim>\<open>float\<close> values (money, prices, ratios) are modelled as \<^typ>\<open>real\<close>.
    The ledger, the metrics and the engine compute with exact arithmetic. The position
    sizing truncates two quotients to whole shares, and there the last bit matters: it
    computes with the rounding of IEEE doubles, \<^verbatim>\<open>double\<close> below. Infinities and
    NaN are not modelled. Where the Python division raises \<^verbatim>\<open>ZeroDivisionError\<close>
    the model returns an error value.
  \<^item> Python \<^verbatim>\<open>int\<close> values (share quantities) are \<^typ>\<open>int\<close>.
  \<^item> A \<^verbatim>\<open>dict\<close> is an association list in insertion order; assignment to a key
    is \<^const>\<open>AList.update\<close> (in place for a known key, appended for a new one),
    \<^verbatim>\<open>del\<close> is \<^const>\<open>AList.delete\<close>, lookup is \<^const>\<open>map_of\<close>.
  \<^item> Objects mutated in place become records that are passed in and returned.
  \<^item> The \<^verbatim>\<open>timestamp\<close> fields of trades and equity points are filled from
    \<^verbatim>\<open>datetime.now()\<close> and read by no function of the core; they are left out.
  \<^item> Names that start with an underscore in the source lose it here.
\<close>

datatype py_error = ZeroDivisionError | KeyError | ValueError | NotFinite

text \<open>\<^verbatim>\<open>str.upper()\<close> on ASCII strings.\<close>

definition upper_char :: "char \<Rightarrow> char" where
  "upper_char c =
     (let n = (of_char c :: nat) in if 97 \<le> n \<and> n \<le> 122 then char_of (n - 32) else c)"

definition upper :: "string \<Rightarrow> string" where
  "upper s = map upper_char s"

text \<open>\<^verbatim>\<open>int(x)\<close> on a float: truncation towards zero.\<close>

definition py_int :: "real \<Rightarrow> int" where
  "py_int x = (if 0 \<le> x then \<lfloor>x\<rfloor> else \<lceil>x\<rceil>)"

text \<open>
  IEEE 754 binary64 rounding: \<open>double x\<close> is the double nearest to the real \<open>x\<close>,
  ties going to the even significand. For \<open>x\<close> other than 0, \<open>ilog2 \<bar>x\<bar>\<close> is the
  binary exponent of \<open>x\<close> (\<open>2 ^ e \<le> \<bar>x\<bar> < 2 ^ (e + 1)\<close>); the spacing of the doubles
  around \<open>x\<close> is \<open>2 ^ (e - 52)\<close>, and never less than \<open>2 ^ (- 1074)\<close>, the spacing of the
  subnormal numbers. A result of magnitude \<open>2 ^ 1024\<close> or more is an infinity in
  Python and is outside the model.
\<close>

definition pow2 :: "int \<Rightarrow> real" where
  "pow2 e = (if 0 \<le> e then 2 ^ nat e else 1 / 2 ^ nat (- e))"

definition ilog2 :: "real \<Rightarrow> int" where
  "ilog2 x = (if 1 \<le> x then bitlen \<lfloor>x\<rfloor> - 1 else - bitlen (\<lceil>1 / x\<rceil> - 1))"

definition round_half_even :: "real \<Rightarrow> int" where
  "round_half_even y =
     (if y - real_of_int \<lfloor>y\<rfloor> < 1 / 2 then \<lfloor>y\<rfloor>
      else if 1 / 2 < y - real_of_int \<lfloor>y\<rfloor> then \<lfloor>y\<rfloor> + 1
      else if even \<lfloor>y\<rfloor> then \<lfloor>y\<rfloor> else \<lfloor>y\<rfloor> + 1)"

definition double :: "real \<Rightarrow> real" where
  "double x =
     (if x = 0 then 0
      else
        (let ulp = pow2 (max (ilog2 \<bar>x\<bar> - 52) (- 1074))
         in sgn x * (real_of_int (round_half_even (\<bar>x\<bar> / ulp)) * ulp)))"

text \<open>The product and the quotient of two doubles, as Python computes them.\<close>

definition float_mul :: "real \<Rightarrow> real \<Rightarrow> real" where
  "float_mul a b = double (a * b)"

definition float_div :: "real \<Rightarrow> real \<Rightarrow> real" where
  "float_div a b = double (a / b)"


section \<open>The portfolio ledger (\<^verbatim>\<open>src/risk/portfolio.py\<close>)\<close>

record position =
  symbol :: string
  quantity :: int
  avg_price :: real
  current_price :: real
  market_value :: real
  unrealized_pl :: real

definition Position_init :: "string \<Rightarrow> int \<Rightarrow> real \<Rightarrow> position" where
  "Position_init smb qty avg =
     \<lparr>symbol = smb, quantity = qty, avg_price = avg, current_price = avg,
      market_value = real_of_int qty * avg, unrealized_pl = 0\<rparr>"

definition update_price :: "position \<Rightarrow> real \<Rightarrow> position" where
  "update_price pos cur =
     pos\<lparr>current_price := cur,
         market_value := real_of_int (quantity pos) * cur,
         unrealized_pl := (cur - avg_price pos) * real_of_int (quantity pos)\<rparr>"

record trade =
  t_symbol :: string
  t_side :: string
  t_quantity :: int
  t_price :: real
  t_commission :: real
  pnl :: real

definition Trade_init :: "string \<Rightarrow> string \<Rightarrow> int \<Rightarrow> real \<Rightarrow> real \<Rightarrow> trade" where
  "Trade_init smb side qty price commission =
     \<lparr>t_symbol = smb, t_side = side, t_quantity = qty, t_price = price,
      t_commission = commission, pnl = 0\<rparr>"

record equity_point =
  ep_value :: real
  ep_cash :: real
  ep_positions_value :: real

record portfolio =
  initial_capital :: real
  cash :: real
  positions :: "(string \<times> position) list"
  trades :: "trade list"
  equity_curve :: "equity_point list"
  portfolio_value :: real
  peak_value :: real

definition Portfolio_init :: "real \<Rightarrow> portfolio" where
  "Portfolio_init c =
     \<lparr>initial_capital = c, cash = c, positions = [], trades = [], equity_curve = [],
      portfolio_value = c, peak_value = c\<rparr>"

definition get_position :: "portfolio \<Rightarrow> string \<Rightarrow> position option" where
  "get_position pf smb = map_of (positions pf) smb"

definition has_position :: "portfolio \<Rightarrow> string \<Rightarrow> bool" where
  "has_position pf smb = (map_of (positions pf) smb \<noteq> None)"

text \<open>
  \<^verbatim>\<open>Portfolio.update_position\<close>. The trade object is appended first and its
  \<^verbatim>\<open>pnl\<close> is assigned afterwards through the shared reference; the model appends the
  trade with its final \<^verbatim>\<open>pnl\<close>. A side that is neither BUY nor SELL only records the
  trade.
\<close>

definition update_position ::
    "portfolio \<Rightarrow> string \<Rightarrow> int \<Rightarrow> real \<Rightarrow> string \<Rightarrow> real \<Rightarrow> portfolio" where
  "update_position pf smb qty price side commission =
     (let tr = Trade_init smb side qty price commission in
      if upper side = ''BUY'' then
        (let ps =
           (case map_of (positions pf) smb of
              Some pos \<Rightarrow>
                (let total_cost = real_of_int (quantity pos) * avg_price pos
                                    + real_of_int qty * price;
                     total_quantity = quantity pos + qty
                 in AList.update smb
                      (pos\<lparr>quantity := total_quantity,
                           avg_price := (if total_quantity > 0
                                         then total_cost / real_of_int total_quantity
                                         else 0)\<rparr>)
                      (positions pf))
            | None \<Rightarrow> AList.update smb (Position_init smb qty price) (positions pf))
         in pf\<lparr>trades := trades pf @ [tr], positions := ps,
                cash := cash pf - (real_of_int qty * price + commission)\<rparr>)
      else if upper side = ''SELL'' then
        (case map_of (positions pf) smb of
           Some pos \<Rightarrow>
             (if qty \<ge> quantity pos then
                pf\<lparr>trades := trades pf
                       @ [tr\<lparr>pnl := (price - avg_price pos) * real_of_int (quantity pos)
                                      - commission\<rparr>],
                    positions := AList.delete smb (positions pf),
                    cash := cash pf + (real_of_int qty * price - commission)\<rparr>
              else
                pf\<lparr>trades := trades pf
                       @ [tr\<lparr>pnl := (price - avg_price pos) * real_of_int qty - commission\<rparr>],
                    positions := AList.update smb (pos\<lparr>quantity := quantity pos - qty\<rparr>)
                                   (positions pf),
                    cash := cash pf + (real_of_int qty * price - commission)\<rparr>)
         | None \<Rightarrow> pf\<lparr>trades := trades pf @ [tr]\<rparr>)
      else pf\<lparr>trades := trades pf @ [tr]\<rparr>)"

text \<open>
  \<^verbatim>\<open>Portfolio._calculate_portfolio_value\<close>: the sum of the market values, the new
  total, the high-water mark, and one more point on the equity curve.
\<close>

definition calculate_portfolio_value :: "portfolio \<Rightarrow> portfolio" where
  "calculate_portfolio_value pf =
     (let positions_value = sum_list (map (\<lambda>(k, pos). market_value pos) (positions pf));
          v = cash pf + positions_value
      in pf\<lparr>portfolio_value := v,
             peak_value := (if v > peak_value pf then v else peak_value pf),
             equity_curve := equity_curve pf
               @ [\<lparr>ep_value = v, ep_cash = cash pf, ep_positions_value = positions_value\<rparr>]\<rparr>)"

text \<open>
  \<^verbatim>\<open>Portfolio.update_prices\<close>: one pass over the items of the price dictionary,
  re-pricing the positions that are held, then the revaluation.
\<close>

definition reprice :: "string \<times> real \<Rightarrow> (string \<times> position) list \<Rightarrow> (string \<times> position) list" where
  "reprice sp ps =
     (case map_of ps (fst sp) of
        Some pos \<Rightarrow> AList.update (fst sp) (update_price pos (snd sp)) ps
      | None \<Rightarrow> ps)"

definition update_prices :: "portfolio \<Rightarrow> (string \<times> real) list \<Rightarrow> portfolio" where
  "update_prices pf prices =
     calculate_portfolio_value (pf\<lparr>positions := fold reprice prices (positions pf)\<rparr>)"

definition get_total_return :: "portfolio \<Rightarrow> py_error + real" where
  "get_total_return pf =
     (if initial_capital pf = 0 then Inl ZeroDivisionError
      else Inr ((portfolio_value pf - initial_capital pf) / initial_capital pf))"

definition get_drawdown :: "portfolio \<Rightarrow> real" where
  "get_drawdown pf =
     (if peak_value pf = 0 then 0
      else (peak_value pf - portfolio_value pf) / peak_value pf)"

text \<open>\<^verbatim>\<open>Portfolio.get_summary\<close>; the total return is computed first and may raise.\<close>

record summary =
  sm_initial_capital :: real
  sm_cash :: real
  sm_portfolio_value :: real
  sm_total_return :: real
  sm_total_return_pct :: real
  sm_peak_value :: real
  sm_drawdown :: real
  sm_drawdown_pct :: real
  sm_num_positions :: nat
  sm_total_trades :: nat
  sm_winning_trades :: nat
  sm_losing_trades :: nat
  sm_win_rate :: real
  sm_avg_win :: real
  sm_avg_loss :: real

definition get_summary :: "portfolio \<Rightarrow> py_error + summary" where
  "get_summary pf =
     (let total_trades = length (trades pf);
          winning_trades = filter (\<lambda>t. pnl t > 0) (trades pf);
          losing_trades = filter (\<lambda>t. pnl t < 0) (trades pf)
      in case get_total_return pf of
           Inl e \<Rightarrow> Inl e
         | Inr total_return \<Rightarrow>
             Inr \<lparr>sm_initial_capital = initial_capital pf,
                  sm_cash = cash pf,
                  sm_portfolio_value = portfolio_value pf,
                  sm_total_return = total_return,
                  sm_total_return_pct = total_return * 100,
                  sm_peak_value = peak_value pf,
                  sm_drawdown = get_drawdown pf,
                  sm_drawdown_pct = get_drawdown pf * 100,
                  sm_num_positions = length (positions pf),
                  sm_total_trades = total_trades,
                  sm_winning_trades = length winning_trades,
                  sm_losing_trades = length losing_trades,
                  sm_win_rate = (if total_trades > 0
                                 then real (length winning_trades) / real total_trades else 0),
                  sm_avg_win = (if winning_trades \<noteq> []
                                then sum_list (map pnl winning_trades)
                                       / real (length winning_trades)
                                else 0),
                  sm_avg_loss = (if losing_trades \<noteq> []
                                 then sum_list (map pnl losing_trades)
                                        / real (length losing_trades)
                                 else 0)\<rparr>)"

text \<open>A ledger operation is a fill or a revaluation; a run of them starts at construction.\<close>

datatype ledger_op =
    Fill string int real string real
  | Revalue "(string \<times> real) list"

fun apply_ledger_op :: "portfolio \<Rightarrow> ledger_op \<Rightarrow> portfolio" where
  "apply_ledger_op pf (Fill smb qty price side commission) =
     update_position pf smb qty price side commission"
| "apply_ledger_op pf (Revalue prices) = update_prices pf prices"

definition apply_ledger_ops :: "portfolio \<Rightarrow> ledger_op list \<Rightarrow> portfolio" where
  "apply_ledger_ops pf ops = foldl apply_ledger_op pf ops"


section \<open>The risk manager (\<^verbatim>\<open>src/risk/risk_manager.py\<close>)\<close>

text \<open>
  \<^verbatim>\<open>src/config.py\<close>: three settings are read from the environment, the others are
  constants of the class.
\<close>

record config =
  INITIAL_CAPITAL :: real
  COMMISSION_PER_TRADE :: real
  SLIPPAGE_PERCENT :: real

definition MAX_POSITION_SIZE :: real where
  "MAX_POSITION_SIZE = 10 / 100"

definition MAX_DRAWDOWN_THRESHOLD :: real where
  "MAX_DRAWDOWN_THRESHOLD = 20 / 100"

text \<open>\<^verbatim>\<open>x or y\<close> on an optional float: \<^verbatim>\<open>None\<close> and \<^verbatim>\<open>0.0\<close> are both falsy.\<close>

definition py_or :: "real option \<Rightarrow> real \<Rightarrow> real" where
  "py_or x y = (case x of None \<Rightarrow> y | Some v \<Rightarrow> if v = 0 then y else v)"

text \<open>
  The risk manager keeps a reference to the portfolio it was built with; the engine
  mutates that same object. The model keeps the three limits in the record and passes
  the current state of the portfolio to every method.
\<close>

record risk_manager =
  rm_max_position_size :: real
  rm_max_drawdown :: real
  rm_max_loss_per_trade :: real

definition RiskManager_init :: "real option \<Rightarrow> real option \<Rightarrow> real \<Rightarrow> risk_manager" where
  "RiskManager_init mps mdd mlpt =
     \<lparr>rm_max_position_size = py_or mps MAX_POSITION_SIZE,
      rm_max_drawdown = py_or mdd MAX_DRAWDOWN_THRESHOLD,
      rm_max_loss_per_trade = mlpt\<rparr>"

text \<open>The reason strings are formatted text; the model keeps which message it is and its numbers.\<close>

datatype reason =
    Trade_approved
  | Invalid_order_side
  | Insufficient_cash real real
  | Position_size_exceeds real real
  | Drawdown_exceeds real real
  | No_position string
  | Insufficient_shares int int
  | Max_drawdown_reached real
  | Negative_cash
  | No_reason

definition check_buy_order ::
    "risk_manager \<Rightarrow> portfolio \<Rightarrow> string \<Rightarrow> int \<Rightarrow> real \<Rightarrow> py_error + bool \<times> reason" where
  "check_buy_order rm pf smb qty price =
     (let order_value = real_of_int qty * price in
      if order_value > cash pf then Inr (False, Insufficient_cash order_value (cash pf))
      else if portfolio_value pf = 0 then Inl ZeroDivisionError
      else
        (let position_size = order_value / portfolio_value pf in
         if position_size > rm_max_position_size rm
         then Inr (False, Position_size_exceeds position_size (rm_max_position_size rm))
         else if get_drawdown pf > rm_max_drawdown rm
         then Inr (False, Drawdown_exceeds (get_drawdown pf) (rm_max_drawdown rm))
         else Inr (True, Trade_approved)))"

definition check_sell_order :: "portfolio \<Rightarrow> string \<Rightarrow> int \<Rightarrow> bool \<times> reason" where
  "check_sell_order pf smb qty =
     (case get_position pf smb of
        None \<Rightarrow> (False, No_position smb)
      | Some pos \<Rightarrow>
          if qty > quantity pos then (False, Insufficient_shares qty (quantity pos))
          else (True, Trade_approved))"

definition check_trade ::
    "risk_manager \<Rightarrow> portfolio \<Rightarrow> string \<Rightarrow> int \<Rightarrow> real \<Rightarrow> string \<Rightarrow> py_error + bool \<times> reason" where
  "check_trade rm pf smb qty price side =
     (if upper side = ''BUY'' then check_buy_order rm pf smb qty price
      else if upper side = ''SELL'' then Inr (check_sell_order pf smb qty)
      else Inr (False, Invalid_order_side))"

text \<open>
  \<^verbatim>\<open>RiskManager.calculate_position_size\<close>, in double arithmetic. The five numbers it
  reads are doubles in the source; a real that is not a double is read as the nearest
  one, as a Python literal is. Past the guard the price is not zero, so the second
  division cannot raise.
\<close>

definition calculate_position_size :: "risk_manager \<Rightarrow> portfolio \<Rightarrow> real \<Rightarrow> real \<Rightarrow> int" where
  "calculate_position_size rm pf price stop_loss_pct =
     (let risk_amount =
            float_mul (double (portfolio_value pf)) (double (rm_max_loss_per_trade rm));
          risk_per_share = float_mul (double price) (double stop_loss_pct)
      in if risk_per_share = 0 then 0
         else
           (let shares = py_int (float_div risk_amount risk_per_share);
                max_shares =
                  py_int (float_div
                            (float_mul (double (portfolio_value pf))
                               (double (rm_max_position_size rm)))
                            (double price))
            in min shares max_shares))"

definition should_stop_trading :: "risk_manager \<Rightarrow> portfolio \<Rightarrow> bool \<times> reason" where
  "should_stop_trading rm pf =
     (let drawdown = get_drawdown pf in
      if drawdown > rm_max_drawdown rm then (True, Max_drawdown_reached drawdown)
      else if cash pf < 0 then (True, Negative_cash)
      else (False, No_reason))"


section \<open>The performance metrics (\<^verbatim>\<open>src/risk/metrics.py\<close>)\<close>

text \<open>
  \<^verbatim>\<open>calculate_returns\<close>: \<^verbatim>\<open>pct_change().dropna()\<close> over the values of the curve. The
  first entry of \<^verbatim>\<open>pct_change\<close> is NaN and is dropped; so is a later \<^verbatim>\<open>0/0\<close>. A
  non-zero value after a zero value gives an infinite return, which a real number
  cannot hold: the model stops there with \<^const>\<open>NotFinite\<close>.
\<close>

fun pct_change :: "real list \<Rightarrow> py_error + real list" where
  "pct_change (a # b # rest) =
     (if a = 0 then (if b = 0 then pct_change (b # rest) else Inl NotFinite)
      else (case pct_change (b # rest) of
              Inl e \<Rightarrow> Inl e
            | Inr rs \<Rightarrow> Inr ((b / a - 1) # rs)))"
| "pct_change [a] = Inr []"
| "pct_change [] = Inr []"

definition calculate_returns :: "equity_point list \<Rightarrow> py_error + real list" where
  "calculate_returns curve = (if curve = [] then Inr [] else pct_change (map ep_value curve))"

definition mean :: "real list \<Rightarrow> real" where
  "mean xs = sum_list xs / real (length xs)"

text \<open>
  \<^verbatim>\<open>Series.std()\<close> is the sample standard deviation (one degree of freedom removed);
  on fewer than two values it is NaN, which is \<^const>\<open>None\<close> here.
\<close>

definition pd_std :: "real list \<Rightarrow> real option" where
  "pd_std xs =
     (if length xs < 2 then None
      else Some (sqrt (sum_list (map (\<lambda>x. (x - mean xs)\<^sup>2) xs) / real (length xs - 1))))"

text \<open>
  \<^verbatim>\<open>sharpe_ratio\<close>. A NaN deviation is not equal to 0, so the guard lets it through
  and the ratio is NaN (\<^const>\<open>None\<close>).
\<close>

definition sharpe_ratio :: "real list \<Rightarrow> real \<Rightarrow> real \<Rightarrow> real option" where
  "sharpe_ratio returns risk_free_rate periods_per_year =
     (if length returns = 0 \<or> pd_std returns = Some 0 then Some 0
      else
        (case pd_std returns of
           None \<Rightarrow> None
         | Some sd \<Rightarrow>
             Some (sqrt periods_per_year
                     * (mean (map (\<lambda>r. r - risk_free_rate / periods_per_year) returns) / sd))))"

text \<open>
  \<^verbatim>\<open>max_drawdown\<close>: the loop over the values with its four variables. Dividing by a
  peak of 0 raises.
\<close>

fun max_drawdown_loop ::
    "real list \<Rightarrow> real \<Rightarrow> real \<Rightarrow> nat \<Rightarrow> nat \<Rightarrow> py_error + real \<times> nat" where
  "max_drawdown_loop [] peak max_dd max_dd_duration current_dd_duration =
     Inr (max_dd, max_dd_duration)"
| "max_drawdown_loop (v # vs) peak max_dd max_dd_duration current_dd_duration =
     (if v > peak then max_drawdown_loop vs v max_dd max_dd_duration 0
      else if peak = 0 then Inl ZeroDivisionError
      else max_drawdown_loop vs peak (max max_dd ((peak - v) / peak))
             (max max_dd_duration (current_dd_duration + 1)) (current_dd_duration + 1))"

definition max_drawdown :: "equity_point list \<Rightarrow> py_error + real \<times> nat" where
  "max_drawdown curve =
     (case map ep_value curve of
        [] \<Rightarrow> Inr (0, 0)
      | v0 # vs \<Rightarrow> max_drawdown_loop (v0 # vs) v0 0 0 0)"

text \<open>
  The result of \<^verbatim>\<open>calculate_all_metrics\<close>. The Sortino and Calmar ratios, the value
  at risk and its conditional form are left out: they rest on percentiles and real
  powers, no statement below reads them, and in exact arithmetic none of them raises.
  An empty curve gives the empty dictionary, \<^const>\<open>None\<close> here.
\<close>

record metrics =
  m_total_return :: real
  m_total_return_pct :: real
  m_sharpe_ratio :: "real option"
  m_max_drawdown :: real
  m_max_drawdown_pct :: real
  m_max_drawdown_duration :: nat
  m_total_trades :: nat
  m_winning_trades :: nat
  m_losing_trades :: nat
  m_win_rate :: real
  m_avg_win :: real
  m_avg_loss :: real
  m_profit_factor :: real
  m_trading_days :: nat
  m_years :: real

definition calculate_all_metrics ::
    "equity_point list \<Rightarrow> trade list \<Rightarrow> real \<Rightarrow> real \<Rightarrow> py_error + metrics option" where
  "calculate_all_metrics curve trs init_capital risk_free_rate =
     (case calculate_returns curve of
        Inl e \<Rightarrow> Inl e
      | Inr returns \<Rightarrow>
          if curve = [] then Inr None
          else if init_capital = 0 then Inl ZeroDivisionError
          else
            (let final_value = ep_value (last curve);
                 total_return = (final_value - init_capital) / init_capital
             in case max_drawdown curve of
                  Inl e \<Rightarrow> Inl e
                | Inr (max_dd, max_dd_duration) \<Rightarrow>
                    (let trading_days = length curve;
                         years = real trading_days / 252;
                         winning_trades = filter (\<lambda>t. pnl t > 0) trs;
                         losing_trades = filter (\<lambda>t. pnl t < 0) trs
                     in Inr (Some
                          \<lparr>m_total_return = total_return,
                           m_total_return_pct = total_return * 100,
                           m_sharpe_ratio = sharpe_ratio returns risk_free_rate 252,
                           m_max_drawdown = max_dd,
                           m_max_drawdown_pct = max_dd * 100,
                           m_max_drawdown_duration = max_dd_duration,
                           m_total_trades = length trs,
                           m_winning_trades = length winning_trades,
                           m_losing_trades = length losing_trades,
                           m_win_rate = (if trs \<noteq> []
                                         then real (length winning_trades) / real (length trs)
                                         else 0),
                           m_avg_win = (if winning_trades \<noteq> []
                                        then mean (map pnl winning_trades) else 0),
                           m_avg_loss = (if losing_trades \<noteq> []
                                         then mean (map pnl losing_trades) else 0),
                           m_profit_factor =
                             (if losing_trades \<noteq> []
                              then \<bar>sum_list (map pnl winning_trades)\<bar>
                                     / \<bar>sum_list (map pnl losing_trades)\<bar>
                              else 0),
                           m_trading_days = trading_days,
                           m_years = years\<rparr>))))"


section \<open>The backtest engine (\<^verbatim>\<open>src/backtesting/backtest_engine.py\<close>)\<close>

text \<open>\<^verbatim>\<open>Signal\<close> of \<^verbatim>\<open>src/strategy/base_strategy.py\<close>; its timestamp is the bar's date.\<close>

record signal =
  sg_symbol :: string
  signal_type :: string
  sg_timestamp :: nat
  sg_price :: real
  sg_quantity :: "int option"
  sg_reason :: string

text \<open>A row of a price table, and the bar event the engine builds from it.\<close>

record bar =
  b_open :: real
  b_high :: real
  b_low :: real
  b_close :: real
  b_volume :: real

record bar_event =
  be_symbol :: string
  be_timestamp :: nat
  be_open :: real
  be_high :: real
  be_low :: real
  be_close :: real
  be_volume :: real

text \<open>
  The engine. A price table is a list of rows keyed by their date (a number); the
  strategy is an object with a state of its own, \<^typ>\<open>'s\<close>, and \<^verbatim>\<open>on_bar\<close> is a
  function from that state and a bar event to the new state and an optional signal.
\<close>

record 's engine =
  strategy :: 's
  e_initial_capital :: real
  commission :: real
  slippage :: real
  e_portfolio :: portfolio
  e_risk_manager :: risk_manager
  e_data :: "(string \<times> (nat \<times> bar) list) list"
  current_prices :: "(string \<times> real) list"

definition BacktestEngine_init ::
    "config \<Rightarrow> 's \<Rightarrow> real option \<Rightarrow> real option \<Rightarrow> real option \<Rightarrow> 's engine" where
  "BacktestEngine_init cfg strat ic com sl =
     \<lparr>strategy = strat,
      e_initial_capital = py_or ic (INITIAL_CAPITAL cfg),
      commission = py_or com (COMMISSION_PER_TRADE cfg),
      slippage = py_or sl (SLIPPAGE_PERCENT cfg),
      e_portfolio = Portfolio_init (py_or ic (INITIAL_CAPITAL cfg)),
      e_risk_manager = RiskManager_init None None (2 / 100),
      e_data = [],
      current_prices = []\<rparr>"

definition load_data :: "'s engine \<Rightarrow> string \<Rightarrow> (nat \<times> bar) list \<Rightarrow> 's engine" where
  "load_data eng smb df = eng\<lparr>e_data := AList.update smb df (e_data eng)\<rparr>"

text \<open>
  \<^verbatim>\<open>BacktestEngine._process_signal\<close>; the signal type is compared as it is written.
  Under \<^verbatim>\<open>has_position\<close> the lookup always finds the position, so the \<^const>\<open>None\<close>
  branch of the inner case is never taken.
\<close>

definition process_signal :: "'s engine \<Rightarrow> signal \<Rightarrow> py_error + 's engine" where
  "process_signal eng sg =
     (let smb = sg_symbol sg; price = sg_price sg; pf = e_portfolio eng in
      if signal_type sg = ''BUY'' then
        (if \<not> has_position pf smb then
           (let qty = calculate_position_size (e_risk_manager eng) pf price (2 / 100) in
            if qty > 0 then
              (case check_trade (e_risk_manager eng) pf smb qty price ''BUY'' of
                 Inl e \<Rightarrow> Inl e
               | Inr (can_trade, why) \<Rightarrow>
                   if can_trade then
                     Inr (eng\<lparr>e_portfolio :=
                            update_position pf smb qty (price * (1 + slippage eng)) ''BUY''
                              (commission eng)\<rparr>)
                   else Inr eng)
            else Inr eng)
         else Inr eng)
      else if signal_type sg = ''SELL'' then
        (if has_position pf smb then
           (case get_position pf smb of
              None \<Rightarrow> Inr eng
            | Some pos \<Rightarrow>
                (let qty = quantity pos in
                 case check_trade (e_risk_manager eng) pf smb qty price ''SELL'' of
                   Inl e \<Rightarrow> Inl e
                 | Inr (can_trade, why) \<Rightarrow>
                     if can_trade then
                       Inr (eng\<lparr>e_portfolio :=
                              update_position pf smb qty (price * (1 - slippage eng)) ''SELL''
                                (commission eng)\<rparr>)
                     else Inr eng))
         else Inr eng)
      else Inr eng)"

text \<open>
  The inner loop of \<^verbatim>\<open>run\<close>: the symbols of one date, in the caller's order. A symbol
  with no table or no row at this date is skipped.
\<close>

fun run_symbols ::
    "('s \<Rightarrow> bar_event \<Rightarrow> 's \<times> signal option) \<Rightarrow> nat \<Rightarrow> string list \<Rightarrow> 's engine
       \<Rightarrow> py_error + 's engine" where
  "run_symbols on_bar date [] eng = Inr eng"
| "run_symbols on_bar date (smb # rest) eng =
     (case map_of (e_data eng) smb of
        None \<Rightarrow> run_symbols on_bar date rest eng
      | Some df \<Rightarrow>
          (case map_of df date of
             None \<Rightarrow> run_symbols on_bar date rest eng
           | Some row \<Rightarrow>
               (let eng1 = eng\<lparr>current_prices :=
                                 AList.update smb (b_close row) (current_prices eng)\<rparr>;
                    ev = \<lparr>be_symbol = smb, be_timestamp = date, be_open = b_open row,
                          be_high = b_high row, be_low = b_low row, be_close = b_close row,
                          be_volume = b_volume row\<rparr>;
                    res = on_bar (strategy eng1) ev;
                    eng2 = eng1\<lparr>strategy := fst res\<rparr>
                in case snd res of
                     None \<Rightarrow> run_symbols on_bar date rest eng2
                   | Some sg \<Rightarrow>
                       (case process_signal eng2 sg of
                          Inl e \<Rightarrow> Inl e
                        | Inr eng3 \<Rightarrow> run_symbols on_bar date rest eng3))))"

text \<open>The outer loop: the halt check, the symbols of the date, then one revaluation.\<close>

fun run_dates ::
    "('s \<Rightarrow> bar_event \<Rightarrow> 's \<times> signal option) \<Rightarrow> string list \<Rightarrow> nat list \<Rightarrow> 's engine
       \<Rightarrow> py_error + 's engine" where
  "run_dates on_bar symbols [] eng = Inr eng"
| "run_dates on_bar symbols (date # rest) eng =
     (if fst (should_stop_trading (e_risk_manager eng) (e_portfolio eng)) then Inr eng
      else
        (case run_symbols on_bar date symbols eng of
           Inl e \<Rightarrow> Inl e
         | Inr eng1 \<Rightarrow>
             run_dates on_bar symbols rest
               (eng1\<lparr>e_portfolio :=
                       update_prices (e_portfolio eng1) (current_prices eng1)\<rparr>)))"

text \<open>The dates of the run: the sorted union of the tables' indices; an unknown symbol raises.\<close>

fun collect_index :: "(string \<times> (nat \<times> bar) list) list \<Rightarrow> string list \<Rightarrow> py_error + nat list" where
  "collect_index dat [] = Inr []"
| "collect_index dat (smb # rest) =
     (case map_of dat smb of
        None \<Rightarrow> Inl KeyError
      | Some df \<Rightarrow>
          (case collect_index dat rest of
             Inl e \<Rightarrow> Inl e
           | Inr ds \<Rightarrow> Inr (map fst df @ ds)))"

definition all_dates :: "(string \<times> (nat \<times> bar) list) list \<Rightarrow> string list \<Rightarrow> py_error + nat list" where
  "all_dates dat symbols =
     (case collect_index dat symbols of
        Inl e \<Rightarrow> Inl e
      | Inr ds \<Rightarrow> Inr (sort (remdups ds)))"

record results =
  r_metrics :: "metrics option"
  r_portfolio_summary :: summary
  r_equity_curve :: "equity_point list"
  r_trades :: "trade list"
  r_final_portfolio_value :: real

definition generate_results :: "'s engine \<Rightarrow> py_error + results" where
  "generate_results eng =
     (case calculate_all_metrics (equity_curve (e_portfolio eng)) (trades (e_portfolio eng))
             (e_initial_capital eng) (2 / 100) of
        Inl e \<Rightarrow> Inl e
      | Inr m \<Rightarrow>
          (case get_summary (e_portfolio eng) of
             Inl e \<Rightarrow> Inl e
           | Inr sm \<Rightarrow>
               Inr \<lparr>r_metrics = m, r_portfolio_summary = sm,
                    r_equity_curve = equity_curve (e_portfolio eng),
                    r_trades = trades (e_portfolio eng),
                    r_final_portfolio_value = portfolio_value (e_portfolio eng)\<rparr>))"

definition run ::
    "('s \<Rightarrow> bar_event \<Rightarrow> 's \<times> signal option) \<Rightarrow> 's engine \<Rightarrow> string list option
       \<Rightarrow> py_error + 's engine \<times> results" where
  "run on_bar eng symbols_opt =
     (let symbols = (case symbols_opt of None \<Rightarrow> map fst (e_data eng) | Some l \<Rightarrow> l) in
      if symbols = [] then Inl ValueError
      else
        (case all_dates (e_data eng) symbols of
           Inl e \<Rightarrow> Inl e
         | Inr dates \<Rightarrow>
             (case run_dates on_bar symbols dates eng of
                Inl e \<Rightarrow> Inl e
              | Inr eng1 \<Rightarrow>
                  (case generate_results eng1 of
                     Inl e \<Rightarrow> Inl e
                   | Inr res \<Rightarrow> Inr (eng1, res)))))"


section \<open>Definitions used in the statements and proofs\<close>

text \<open>What one pass of \<^const>\<open>update_prices\<close> does to a single position held under key \<open>k\<close>.\<close>

definition reprice_pos :: "string \<Rightarrow> (string \<times> real) list \<Rightarrow> position \<Rightarrow> position" where
  "reprice_pos k prices pos =
     fold (\<lambda>sp a. if fst sp = k then update_price a (snd sp) else a) prices pos"

text \<open>The ledger never lets the value or the initial capital exceed the high-water mark.\<close>

definition ledger_inv :: "portfolio \<Rightarrow> bool" where
  "ledger_inv pf = (portfolio_value pf \<le> peak_value pf \<and> initial_capital pf \<le> peak_value pf)"

text \<open>
  As long as no trade is recorded, the cash is the initial capital \<open>c\<close>, nothing is
  held and every point of the equity curve has the value \<open>c\<close>.
\<close>

definition no_trades_inv :: "real \<Rightarrow> portfolio \<Rightarrow> bool" where
  "no_trades_inv c pf =
     (trades pf = [] \<longrightarrow>
        cash pf = c \<and> positions pf = [] \<and> (\<forall>e \<in> set (equity_curve pf). ep_value e = c))"

definition engine_inv :: "real \<Rightarrow> 's engine \<Rightarrow> bool" where
  "engine_inv c eng = (e_initial_capital eng = c \<and> no_trades_inv c (e_portfolio eng))"


text \<open>
  The duration as the specification words it: the longest run of consecutive points
  whose value is strictly below the running peak, the count starting again at 0 when a
  new peak is set. A point that equals the peak is not below it and ends the run.
\<close>

fun spec_duration_loop :: "real list \<Rightarrow> real \<Rightarrow> nat \<Rightarrow> nat \<Rightarrow> nat" where
  "spec_duration_loop [] peak best cur = best"
| "spec_duration_loop (v # vs) peak best cur =
     (if v > peak then spec_duration_loop vs v best 0
      else if v < peak then spec_duration_loop vs peak (max best (cur + 1)) (cur + 1)
      else spec_duration_loop vs peak best 0)"

definition spec_max_dd_duration :: "equity_point list \<Rightarrow> nat" where
  "spec_max_dd_duration curve =
     (case map ep_value curve of
        [] \<Rightarrow> 0
      | v0 # vs \<Rightarrow> spec_duration_loop (v0 # vs) v0 0 0)"

text \<open>The drawdowns of a list of values against their running peak, starting from \<open>peak\<close>.\<close>

fun drawdowns :: "real \<Rightarrow> real list \<Rightarrow> real list" where
  "drawdowns peak [] = []"
| "drawdowns peak (v # vs) = ((max peak v - v) / max peak v) # drawdowns (max peak v) vs"

text \<open>
  Concrete inputs for the examples: the default configuration, an engine built from
  it for a strategy without state, a signal on the symbol A, a bar with all prices at
  10, a strategy that never signals, and an equity point that is all cash.
\<close>

definition example_config :: config where
  "example_config =
     \<lparr>INITIAL_CAPITAL = 100000, COMMISSION_PER_TRADE = 0, SLIPPAGE_PERCENT = 1 / 1000\<rparr>"

definition example_engine :: "unit engine" where
  "example_engine = BacktestEngine_init example_config () None None None"

definition example_signal :: "string \<Rightarrow> real \<Rightarrow> signal" where
  "example_signal ty price =
     \<lparr>sg_symbol = ''A'', signal_type = ty, sg_timestamp = 1, sg_price = price,
      sg_quantity = None, sg_reason = []\<rparr>"

definition example_held :: "unit engine" where
  "example_held =
     example_engine\<lparr>e_portfolio :=
       update_position (e_portfolio example_engine) ''A'' 200 (50 * (1 + 1 / 1000)) ''BUY'' 0\<rparr>"

definition flat_bar :: bar where
  "flat_bar = \<lparr>b_open = 10, b_high = 10, b_low = 10, b_close = 10, b_volume = 1\<rparr>"

definition never_signal :: "unit \<Rightarrow> bar_event \<Rightarrow> unit \<times> signal option" where
  "never_signal st ev = (st, None)"

text \<open>A run of the example engine over the symbol A, with a flat bar at each given date.\<close>

definition example_tables :: "nat list \<Rightarrow> (string \<times> (nat \<times> bar) list) list" where
  "example_tables dates = [(''A'', map (\<lambda>d. (d, flat_bar)) dates)]"

definition example_run :: "nat list \<Rightarrow> py_error + unit engine \<times> results" where
  "example_run dates =
     run never_signal
       ((BacktestEngine_init example_config () None None None)\<lparr>e_data := example_tables dates\<rparr>)
       (Some [''A''])"

definition cash_point :: "real \<Rightarrow> equity_point" where
  "cash_point v = \<lparr>ep_value = v, ep_cash = v, ep_positions_value = 0\<rparr>"


section \<open>Fills\<close>

lemma upper_BUY: "upper ''BUY'' = ''BUY''"
  by code_simp

lemma upper_SELL: "upper ''SELL'' = ''SELL''"
  by code_simp

lemma update_position_trades_nonempty: "trades (update_position pf smb q p side cm) \<noteq> []"
  by (simp add: update_position_def Let_def split: option.splits)

lemma update_position_frame:
  "portfolio_value (update_position pf smb q p side c) = portfolio_value pf
   \<and> peak_value (update_position pf smb q p side c) = peak_value pf
   \<and> initial_capital (update_position pf smb q p side c) = initial_capital pf
   \<and> equity_curve (update_position pf smb q p side c) = equity_curve pf"
  by (simp add: update_position_def Let_def split: option.splits)

text \<open>
  C1 (as amended). A BUY fill of quantity \<open>q\<close> at price \<open>p\<close> debits the cash by
  \<open>q * p + commission\<close> and appends the trade. If the symbol is held with quantity
  \<open>oq\<close> and average cost \<open>oa\<close>, the quantity becomes \<open>oq + q\<close> and the average cost
  becomes \<open>(oq * oa + q * p) / (oq + q)\<close> when \<open>oq + q\<close> is positive and 0 otherwise
  (the guard of the source); the other fields of the position stay. If the symbol is
  not held, a position of quantity \<open>q\<close> and average cost \<open>p\<close> is created.
\<close>

theorem update_position_buy:
  assumes "upper side = ''BUY''"
  shows "cash (update_position pf smb q p side c) = cash pf - (real_of_int q * p + c)
       \<and> trades (update_position pf smb q p side c) = trades pf @ [Trade_init smb side q p c]
       \<and> (\<forall>pos. get_position pf smb = Some pos \<longrightarrow>
            get_position (update_position pf smb q p side c) smb =
              Some (pos\<lparr>quantity := quantity pos + q,
                        avg_price :=
                          (if 0 < quantity pos + q
                           then (real_of_int (quantity pos) * avg_price pos + real_of_int q * p)
                                  / real_of_int (quantity pos + q)
                           else 0)\<rparr>))
       \<and> (get_position pf smb = None \<longrightarrow>
            get_position (update_position pf smb q p side c) smb = Some (Position_init smb q p))"
  using assms
  by (auto simp: update_position_def Let_def get_position_def update_conv' split: option.splits)

text \<open>The theorem at work: a first purchase of 5 at 10, then 5 more at 20 with a commission of 1.\<close>

theorem update_position_buy_witness:
  "upper ''buy'' = ''BUY''
   \<and> get_position (update_position (Portfolio_init 1000) ''A'' 5 10 ''buy'' 0) ''A''
       = Some (Position_init ''A'' 5 10)
   \<and> cash (update_position (update_position (Portfolio_init 1000) ''A'' 5 10 ''buy'' 0)
             ''A'' 5 20 ''buy'' 1) = 849
   \<and> map_option quantity
       (get_position (update_position (update_position (Portfolio_init 1000) ''A'' 5 10 ''buy'' 0)
                        ''A'' 5 20 ''buy'' 1) ''A'') = Some 10
   \<and> map_option avg_price
       (get_position (update_position (update_position (Portfolio_init 1000) ''A'' 5 10 ''buy'' 0)
                        ''A'' 5 20 ''buy'' 1) ''A'') = Some 15"
proof -
  have u: "upper ''buy'' = ''BUY''" by code_simp
  have n: "get_position (Portfolio_init 1000) ''A'' = None"
    by (simp add: get_position_def Portfolio_init_def)
  have c0: "cash (Portfolio_init 1000) = 1000" by (simp add: Portfolio_init_def)
  note first = update_position_buy[OF u, of "Portfolio_init 1000" "''A''" 5 10 0]
  from first n have p: "get_position (update_position (Portfolio_init 1000) ''A'' 5 10 ''buy'' 0) ''A''
       = Some (Position_init ''A'' 5 10)" by simp
  from first c0 have c1: "cash (update_position (Portfolio_init 1000) ''A'' 5 10 ''buy'' 0) = 950"
    by simp
  note second = update_position_buy[OF u,
      of "update_position (Portfolio_init 1000) ''A'' 5 10 ''buy'' 0" "''A''" 5 20 1]
  from second p c1 u show ?thesis by (simp add: Position_init_def)
qed

text \<open>
  The formula without the guard fails when the new quantity is negative: holding 5 at
  10, a BUY of \<open>-10\<close> at 4 leaves the average cost 0, where the formula gives \<open>-2\<close>.
\<close>

theorem update_position_buy_counterexample:
  "get_position (update_position (Portfolio_init 1000) ''A'' 5 10 ''BUY'' 0) ''A''
     = Some (Position_init ''A'' 5 10)
   \<and> map_option avg_price
       (get_position (update_position (update_position (Portfolio_init 1000) ''A'' 5 10 ''BUY'' 0)
                        ''A'' (- 10) 4 ''BUY'' 0) ''A'') = Some 0
   \<and> (real_of_int 5 * 10 + real_of_int (- 10) * 4) / real_of_int (5 + (- 10)) = (- 2 :: real)"
  by code_simp

text \<open>
  C2. A SELL fill of quantity \<open>q\<close> at price \<open>p\<close> on a held symbol (quantity \<open>h\<close>,
  average cost \<open>a\<close>) records the realized P&L \<open>(p - a) * min q h - commission\<close> and
  credits the cash by \<open>q * p - commission\<close>; with \<open>h \<le> q\<close> the position is deleted,
  otherwise its quantity drops by \<open>q\<close> and nothing else of it changes.
\<close>

theorem update_position_sell:
  assumes "upper side = ''SELL''" and "get_position pf smb = Some pos"
  shows "trades (update_position pf smb q p side c) =
           trades pf @ [(Trade_init smb side q p c)
                          \<lparr>pnl := (p - avg_price pos) * real_of_int (min q (quantity pos)) - c\<rparr>]
       \<and> cash (update_position pf smb q p side c) = cash pf + (real_of_int q * p - c)
       \<and> (quantity pos \<le> q \<longrightarrow>
            positions (update_position pf smb q p side c) = AList.delete smb (positions pf)
          \<and> get_position (update_position pf smb q p side c) smb = None)
       \<and> (q < quantity pos \<longrightarrow>
            get_position (update_position pf smb q p side c) smb =
              Some (pos\<lparr>quantity := quantity pos - q\<rparr>))"
  using assms
  by (auto simp: update_position_def Let_def get_position_def update_conv' delete_conv' min_def
           split: option.splits)

text \<open>The theorem at work: holding 5 at 10, a partial sale of 2 and a sale of 7, both at 12.\<close>

theorem update_position_sell_witness:
  "upper ''SELL'' = ''SELL''
   \<and> get_position (update_position (Portfolio_init 1000) ''A'' 5 10 ''BUY'' 0) ''A''
       = Some (Position_init ''A'' 5 10)
   \<and> map pnl (trades (update_position (update_position (Portfolio_init 1000) ''A'' 5 10 ''BUY'' 0)
                         ''A'' 2 12 ''SELL'' 1)) = [0, 3]
   \<and> map_option quantity
       (get_position (update_position (update_position (Portfolio_init 1000) ''A'' 5 10 ''BUY'' 0)
                        ''A'' 2 12 ''SELL'' 1) ''A'') = Some 3
   \<and> map pnl (trades (update_position (update_position (Portfolio_init 1000) ''A'' 5 10 ''BUY'' 0)
                         ''A'' 7 12 ''SELL'' 1)) = [0, 9]
   \<and> cash (update_position (update_position (Portfolio_init 1000) ''A'' 5 10 ''BUY'' 0)
             ''A'' 7 12 ''SELL'' 1) = 1033
   \<and> get_position (update_position (update_position (Portfolio_init 1000) ''A'' 5 10 ''BUY'' 0)
                     ''A'' 7 12 ''SELL'' 1) ''A'' = None"
proof -
  let ?pf = "update_position (Portfolio_init 1000) ''A'' 5 10 ''BUY'' 0"
  have p: "get_position ?pf ''A'' = Some (Position_init ''A'' 5 10)" by code_simp
  have t: "map pnl (trades ?pf) = [0]" and c: "cash ?pf = 950" by code_simp+
  note part = update_position_sell[OF upper_SELL p, of 2 12 1]
  note full = update_position_sell[OF upper_SELL p, of 7 12 1]
  from part full p t c show ?thesis
    by (simp add: Position_init_def Trade_init_def upper_SELL)
qed

text \<open>
  C10. A SELL for a symbol that is not held still appends a trade, with P&L 0, and
  leaves the cash and the positions as they were: the trade history grows by one.
\<close>

theorem sell_without_position_only_records:
  assumes "upper side = ''SELL''" and "get_position pf smb = None"
  shows "trades (update_position pf smb q p side c) = trades pf @ [Trade_init smb side q p c]
       \<and> pnl (last (trades (update_position pf smb q p side c))) = 0
       \<and> length (trades (update_position pf smb q p side c)) = Suc (length (trades pf))
       \<and> cash (update_position pf smb q p side c) = cash pf
       \<and> positions (update_position pf smb q p side c) = positions pf"
  using assms
  by (auto simp: update_position_def Let_def get_position_def Trade_init_def)

text \<open>The theorem at work on a fresh ledger.\<close>

theorem sell_without_position_only_records_witness:
  "upper ''sell'' = ''SELL'' \<and> get_position (Portfolio_init 1000) ''A'' = None
   \<and> map pnl (trades (update_position (Portfolio_init 1000) ''A'' 5 10 ''sell'' 1)) = [0]
   \<and> cash (update_position (Portfolio_init 1000) ''A'' 5 10 ''sell'' 1) = 1000
   \<and> positions (update_position (Portfolio_init 1000) ''A'' 5 10 ''sell'' 1) = []"
proof -
  have u: "upper ''sell'' = ''SELL''" by code_simp
  have n: "get_position (Portfolio_init 1000) ''A'' = None"
    by (simp add: get_position_def Portfolio_init_def)
  from sell_without_position_only_records[OF u n, of 5 10 1] u n show ?thesis
    by (simp add: Portfolio_init_def Trade_init_def)
qed


section \<open>Revaluation\<close>

lemma reprice_Nil: "reprice sp [] = []"
  by (simp add: reprice_def)

lemma reprice_Cons:
  "reprice sp ((k, pos) # rest) =
     (if fst sp = k then (k, update_price pos (snd sp)) # rest else (k, pos) # reprice sp rest)"
  by (simp add: reprice_def split: option.splits)

lemma fold_reprice_Nil: "fold reprice prices [] = []"
  by (induction prices) (simp_all add: reprice_Nil)

text \<open>
  The pass over the prices acts on the first position alone, and on the rest with the
  prices of the other symbols.
\<close>

lemma fold_reprice_Cons:
  "fold reprice prices ((k, pos) # rest) =
     (k, reprice_pos k prices pos) # fold reprice (filter (\<lambda>sp. fst sp \<noteq> k) prices) rest"
proof (induction prices arbitrary: pos rest)
  case Nil
  show ?case by (simp add: reprice_pos_def)
next
  case (Cons x xs)
  show ?case
  proof (cases "fst x = k")
    case True
    then show ?thesis using Cons.IH by (simp add: reprice_Cons reprice_pos_def)
  next
    case False
    then show ?thesis using Cons.IH by (simp add: reprice_Cons reprice_pos_def)
  qed
qed

lemma update_price_same_base:
  "symbol a = symbol b \<Longrightarrow> quantity a = quantity b \<Longrightarrow> avg_price a = avg_price b \<Longrightarrow>
   update_price a p = update_price b p"
  by (cases a, cases b) (simp add: update_price_def)

lemma reprice_pos_base:
  "symbol (reprice_pos k xs a) = symbol a \<and> quantity (reprice_pos k xs a) = quantity a
   \<and> avg_price (reprice_pos k xs a) = avg_price a"
  by (induction xs arbitrary: a) (simp_all add: reprice_pos_def update_price_def)

lemma reprice_pos_absent: "k \<notin> fst ` set xs \<Longrightarrow> reprice_pos k xs a = a"
  by (induction xs arbitrary: a) (auto simp: reprice_pos_def)

lemma reprice_pos_present:
  "k \<in> fst ` set xs \<Longrightarrow> symbol a = symbol b \<Longrightarrow> quantity a = quantity b \<Longrightarrow>
   avg_price a = avg_price b \<Longrightarrow> reprice_pos k xs a = reprice_pos k xs b"
proof (induction xs arbitrary: a b)
  case Nil
  then show ?case by simp
next
  case (Cons x xs)
  show ?case
  proof (cases "fst x = k")
    case True
    have e: "update_price a (snd x) = update_price b (snd x)"
      using Cons.prems by (intro update_price_same_base)
    show ?thesis using True e by (simp add: reprice_pos_def)
  next
    case False
    then have "k \<in> fst ` set xs" using Cons.prems(1) by auto
    from Cons.IH[OF this Cons.prems(2,3,4)] False show ?thesis
      by (simp add: reprice_pos_def)
  qed
qed

lemma reprice_pos_idem: "reprice_pos k xs (reprice_pos k xs a) = reprice_pos k xs a"
proof (cases "k \<in> fst ` set xs")
  case True
  show ?thesis
    using reprice_pos_present[OF True, of "reprice_pos k xs a" a] reprice_pos_base[of k xs a]
    by simp
next
  case False
  then show ?thesis by (simp add: reprice_pos_absent)
qed

lemma fold_reprice_idem: "fold reprice prices (fold reprice prices ps) = fold reprice prices ps"
proof (induction ps arbitrary: prices)
  case Nil
  show ?case by (simp add: fold_reprice_Nil)
next
  case (Cons a ps)
  obtain k pos where a: "a = (k, pos)" by (cases a)
  show ?case unfolding a
    by (simp add: fold_reprice_Cons reprice_pos_idem Cons.IH)
qed

text \<open>
  C3. Two revaluations in a row with the same prices append one equity point each;
  the two points agree on value, cash and positions value, and each of them has
  value = cash + positions value.
\<close>

theorem update_prices_twice:
  "\<exists>e1 e2.
     equity_curve (update_prices pf prices) = equity_curve pf @ [e1]
   \<and> equity_curve (update_prices (update_prices pf prices) prices) = equity_curve pf @ [e1, e2]
   \<and> ep_value e1 = ep_value e2 \<and> ep_cash e1 = ep_cash e2
   \<and> ep_positions_value e1 = ep_positions_value e2
   \<and> ep_value e1 = ep_cash e1 + ep_positions_value e1
   \<and> ep_value e2 = ep_cash e2 + ep_positions_value e2"
  by (simp add: update_prices_def calculate_portfolio_value_def Let_def fold_reprice_idem)


section \<open>The high-water mark and the drawdown\<close>

lemma update_prices_peak:
  "peak_value pf \<le> peak_value (update_prices pf prices)
   \<and> portfolio_value (update_prices pf prices) \<le> peak_value (update_prices pf prices)
   \<and> initial_capital (update_prices pf prices) = initial_capital pf"
  by (simp add: update_prices_def calculate_portfolio_value_def Let_def)

lemma apply_ledger_op_peak: "peak_value pf \<le> peak_value (apply_ledger_op pf x)"
  by (cases x) (simp_all add: update_position_frame update_prices_peak)

lemma apply_ledger_op_inv: "ledger_inv pf \<Longrightarrow> ledger_inv (apply_ledger_op pf x)"
  using update_prices_peak[of pf]
  by (cases x) (auto simp: ledger_inv_def update_position_frame intro: order_trans)

lemma foldl_ledger_peak: "peak_value pf \<le> peak_value (foldl apply_ledger_op pf xs)"
proof (induction xs arbitrary: pf)
  case Nil
  show ?case by simp
next
  case (Cons x xs)
  show ?case using apply_ledger_op_peak[of pf x] Cons.IH[of "apply_ledger_op pf x"] by simp
qed

lemma foldl_ledger_inv: "ledger_inv pf \<Longrightarrow> ledger_inv (foldl apply_ledger_op pf xs)"
  by (induction xs arbitrary: pf) (simp_all add: apply_ledger_op_inv)

lemma foldl_ledger_initial: "initial_capital (foldl apply_ledger_op pf xs) = initial_capital pf"
proof (induction xs arbitrary: pf)
  case Nil
  show ?case by simp
next
  case (Cons x xs)
  have "initial_capital (apply_ledger_op pf x) = initial_capital pf"
    by (cases x) (simp_all add: update_position_frame update_prices_peak)
  then show ?case using Cons.IH[of "apply_ledger_op pf x"] by simp
qed

lemma ledger_inv_init: "ledger_inv (Portfolio_init c)"
  by (simp add: ledger_inv_def Portfolio_init_def)

lemma drawdown_bounds:
  assumes "portfolio_value pf \<le> peak_value pf"
  shows "(0 \<le> peak_value pf \<longrightarrow> 0 \<le> get_drawdown pf)
       \<and> (0 \<le> portfolio_value pf \<longrightarrow> get_drawdown pf \<le> 1)"
  using assms by (auto simp: get_drawdown_def divide_le_eq_1)

text \<open>
  C9 (as amended). Over every sequence of fills and revaluations from construction,
  the peak value never decreases; the drawdown is at least 0 when the initial capital
  is not negative, and it lies in \<open>[0, 1]\<close> whenever the portfolio value is not
  negative.
\<close>

theorem ledger_peak_and_drawdown:
  "peak_value (apply_ledger_ops (Portfolio_init c) ops)
     \<le> peak_value (apply_ledger_ops (Portfolio_init c) (ops @ more_ops))
   \<and> (0 \<le> c \<longrightarrow> 0 \<le> get_drawdown (apply_ledger_ops (Portfolio_init c) ops))
   \<and> (0 \<le> portfolio_value (apply_ledger_ops (Portfolio_init c) ops) \<longrightarrow>
        0 \<le> get_drawdown (apply_ledger_ops (Portfolio_init c) ops)
      \<and> get_drawdown (apply_ledger_ops (Portfolio_init c) ops) \<le> 1)"
proof -
  let ?pf = "apply_ledger_ops (Portfolio_init c) ops"
  have inv: "ledger_inv ?pf"
    unfolding apply_ledger_ops_def by (rule foldl_ledger_inv[OF ledger_inv_init])
  have ic: "initial_capital ?pf = c"
    unfolding apply_ledger_ops_def by (simp add: foldl_ledger_initial Portfolio_init_def)
  have mono: "peak_value ?pf \<le> peak_value (apply_ledger_ops (Portfolio_init c) (ops @ more_ops))"
    unfolding apply_ledger_ops_def by (simp add: foldl_ledger_peak)
  from inv ic have le: "portfolio_value ?pf \<le> peak_value ?pf" and cle: "c \<le> peak_value ?pf"
    by (simp_all add: ledger_inv_def)
  from drawdown_bounds[OF le] le cle mono show ?thesis by auto
qed

text \<open>The theorem at work: one share bought at 50, revalued at 40, then at 70.\<close>

theorem ledger_peak_and_drawdown_witness:
  "(0::real) \<le> 100
   \<and> 0 \<le> portfolio_value (apply_ledger_ops (Portfolio_init 100)
                             [Fill ''A'' 1 50 ''BUY'' 0, Revalue [(''A'', 40)]])
   \<and> 0 \<le> get_drawdown (apply_ledger_ops (Portfolio_init 100)
                           [Fill ''A'' 1 50 ''BUY'' 0, Revalue [(''A'', 40)]])
   \<and> get_drawdown (apply_ledger_ops (Portfolio_init 100)
                     [Fill ''A'' 1 50 ''BUY'' 0, Revalue [(''A'', 40)]]) \<le> 1
   \<and> peak_value (apply_ledger_ops (Portfolio_init 100)
                   [Fill ''A'' 1 50 ''BUY'' 0, Revalue [(''A'', 40)]])
       \<le> peak_value (apply_ledger_ops (Portfolio_init 100)
                       ([Fill ''A'' 1 50 ''BUY'' 0, Revalue [(''A'', 40)]]
                        @ [Revalue [(''A'', 70)]]))"
proof -
  have v: "0 \<le> portfolio_value (apply_ledger_ops (Portfolio_init 100)
                             [Fill ''A'' 1 50 ''BUY'' 0, Revalue [(''A'', 40)]])"
    by code_simp
  from ledger_peak_and_drawdown[of 100 "[Fill ''A'' 1 50 ''BUY'' 0, Revalue [(''A'', 40)]]"
         "[Revalue [(''A'', 70)]]"] v
  show ?thesis by simp
qed

text \<open>
  The drawdown leaves \<open>[0, 1]\<close> once the portfolio value is negative: with a capital
  of 100, ten shares bought at 20 (the ledger does not check the cash) and revalued at
  5 give a value of \<open>-50\<close> and a drawdown of \<open>3/2\<close>.
\<close>

theorem ledger_drawdown_counterexample:
  "get_drawdown (apply_ledger_ops (Portfolio_init 100)
                   [Fill ''A'' 10 20 ''BUY'' 0, Revalue [(''A'', 5)]]) = 3 / 2
   \<and> \<not> get_drawdown (apply_ledger_ops (Portfolio_init 100)
                       [Fill ''A'' 10 20 ''BUY'' 0, Revalue [(''A'', 5)]]) \<le> 1"
  by code_simp


section \<open>The risk manager's halt and sizing\<close>

text \<open>
  C4. \<^const>\<open>should_stop_trading\<close> halts exactly when the drawdown is strictly above
  the limit or the cash is strictly below 0; in particular a drawdown equal to the
  limit, with cash not below 0, does not halt.
\<close>

theorem should_stop_trading_iff:
  "fst (should_stop_trading rm pf) = (get_drawdown pf > rm_max_drawdown rm \<or> cash pf < 0)
   \<and> (get_drawdown pf = rm_max_drawdown rm \<and> 0 \<le> cash pf \<longrightarrow>
        should_stop_trading rm pf = (False, No_reason))"
  by (auto simp: should_stop_trading_def Let_def)

text \<open>
  The theorem at work: with a capital of 100000, a position bought for 20000 and
  revalued at 0 gives a drawdown of exactly 0.20, the limit, and no halt; bought for
  21000, the drawdown is 0.21 and the run halts.
\<close>

theorem should_stop_trading_iff_witness:
  "get_drawdown (apply_ledger_ops (Portfolio_init 100000)
                   [Fill ''A'' 100 200 ''BUY'' 0, Revalue [(''A'', 0)]])
     = rm_max_drawdown (RiskManager_init (Some (10 / 100)) (Some (20 / 100)) (2 / 100))
   \<and> 0 \<le> cash (apply_ledger_ops (Portfolio_init 100000)
                   [Fill ''A'' 100 200 ''BUY'' 0, Revalue [(''A'', 0)]])
   \<and> should_stop_trading (RiskManager_init (Some (10 / 100)) (Some (20 / 100)) (2 / 100))
       (apply_ledger_ops (Portfolio_init 100000)
          [Fill ''A'' 100 200 ''BUY'' 0, Revalue [(''A'', 0)]]) = (False, No_reason)
   \<and> fst (should_stop_trading (RiskManager_init (Some (10 / 100)) (Some (20 / 100)) (2 / 100))
       (apply_ledger_ops (Portfolio_init 100000)
          [Fill ''A'' 100 210 ''BUY'' 0, Revalue [(''A'', 0)]]))"
proof -
  let ?rm = "RiskManager_init (Some (10 / 100)) (Some (20 / 100)) (2 / 100)"
  let ?pf = "apply_ledger_ops (Portfolio_init 100000)
               [Fill ''A'' 100 200 ''BUY'' 0, Revalue [(''A'', 0)]]"
  let ?pf' = "apply_ledger_ops (Portfolio_init 100000)
               [Fill ''A'' 100 210 ''BUY'' 0, Revalue [(''A'', 0)]]"
  have d: "get_drawdown ?pf = rm_max_drawdown ?rm" by code_simp
  have c: "0 \<le> cash ?pf" by code_simp
  have d': "get_drawdown ?pf' > rm_max_drawdown ?rm" by code_simp
  from should_stop_trading_iff[of ?rm ?pf] should_stop_trading_iff[of ?rm ?pf'] d c d'
  show ?thesis by simp
qed


text \<open>The exponent that \<^const>\<open>double\<close> uses is the binary exponent.\<close>

lemma ilog2_bounds:
  assumes "0 < x"
  shows "pow2 (ilog2 x) \<le> x \<and> x < pow2 (ilog2 x + 1)"
proof (cases "1 \<le> x")
  case True
  let ?n = "\<lfloor>x\<rfloor>"
  have n: "0 < ?n" using True by simp
  have b: "1 \<le> bitlen ?n" using n by (simp add: bitlen_ge_iff_power)
  from bitlen_bounds[OF n] have lo: "2 ^ nat (bitlen ?n - 1) \<le> ?n"
    and hi: "?n + 1 \<le> 2 ^ nat (bitlen ?n)" by simp_all
  have "real_of_int (2 ^ nat (bitlen ?n - 1)) \<le> real_of_int ?n" using lo by linarith
  then have 1: "(2::real) ^ nat (bitlen ?n - 1) \<le> x" by (simp add: le_floor_iff)
  have "x < real_of_int (?n + 1)" by linarith
  also have "\<dots> \<le> real_of_int (2 ^ nat (bitlen ?n))" using hi by linarith
  finally have 2: "x < (2::real) ^ nat (bitlen ?n)" by simp
  from 1 2 b True show ?thesis by (simp add: ilog2_def pow2_def)
next
  case False
  let ?k = "\<lceil>1 / x\<rceil> - 1"
  have y: "1 < 1 / x" using False assms by simp
  then have k: "0 < ?k" by (simp add: less_ceiling_iff)
  have b: "1 \<le> bitlen ?k" using k by (simp add: bitlen_ge_iff_power)
  from bitlen_bounds[OF k] have lo: "2 ^ nat (bitlen ?k - 1) \<le> ?k"
    and hi: "?k + 1 \<le> 2 ^ nat (bitlen ?k)" by simp_all
  have "1 / x \<le> real_of_int (?k + 1)" by simp
  also have "\<dots> \<le> real_of_int (2 ^ nat (bitlen ?k))" using hi by linarith
  finally have "1 / x \<le> (2::real) ^ nat (bitlen ?k)" by simp
  then have 1: "1 / 2 ^ nat (bitlen ?k) \<le> x"
    using assms by (simp add: field_simps)
  have "real_of_int (2 ^ nat (bitlen ?k - 1)) \<le> real_of_int ?k" using lo by linarith
  also have "real_of_int ?k < 1 / x" by linarith
  finally have "(2::real) ^ nat (bitlen ?k - 1) < 1 / x" by simp
  then have 2: "x < 1 / 2 ^ nat (bitlen ?k - 1)"
    using assms by (simp add: field_simps)
  have e: "nat (bitlen ?k) = Suc (nat (bitlen ?k - 1))" using b by simp
  show ?thesis
  proof (cases "bitlen ?k = 1")
    case True
    with 1 2 False show ?thesis by (simp add: ilog2_def pow2_def)
  next
    case ne: False
    with b have "\<not> 0 \<le> - bitlen ?k + 1" by simp
    with 1 2 False b show ?thesis by (simp add: ilog2_def pow2_def nat_diff_distrib)
  qed
qed










section \<open>Signal routing\<close>

lemma check_sell_held:
  "get_position pf smb = Some pos \<Longrightarrow>
   check_trade rm pf smb (quantity pos) price ''SELL'' = Inr (True, Trade_approved)"
  by (simp add: check_trade_def check_sell_order_def upper_SELL upper_BUY)

text \<open>
  C6. A BUY signal for a symbol that is held changes nothing; a BUY that is sized
  above 0 and approved is filled with the sized quantity at \<open>price * (1 + slippage)\<close>
  and the engine's commission. A SELL signal for a symbol that is not held changes
  nothing; a SELL for a held symbol is always approved and fills the whole held
  quantity at \<open>price * (1 - slippage)\<close>, after which the symbol is no longer held.
\<close>

theorem process_signal_routing:
  "(signal_type sg = ''BUY'' \<and> has_position (e_portfolio eng) (sg_symbol sg) \<longrightarrow>
      process_signal eng sg = Inr eng)
   \<and> (signal_type sg = ''BUY'' \<and> \<not> has_position (e_portfolio eng) (sg_symbol sg)
        \<and> 0 < calculate_position_size (e_risk_manager eng) (e_portfolio eng) (sg_price sg) (2 / 100)
        \<and> check_trade (e_risk_manager eng) (e_portfolio eng) (sg_symbol sg)
             (calculate_position_size (e_risk_manager eng) (e_portfolio eng) (sg_price sg) (2 / 100))
             (sg_price sg) ''BUY'' = Inr (True, why) \<longrightarrow>
      process_signal eng sg =
        Inr (eng\<lparr>e_portfolio :=
               update_position (e_portfolio eng) (sg_symbol sg)
                 (calculate_position_size (e_risk_manager eng) (e_portfolio eng) (sg_price sg)
                    (2 / 100))
                 (sg_price sg * (1 + slippage eng)) ''BUY'' (commission eng)\<rparr>))
   \<and> (signal_type sg = ''SELL'' \<and> \<not> has_position (e_portfolio eng) (sg_symbol sg) \<longrightarrow>
      process_signal eng sg = Inr eng)
   \<and> (\<forall>pos. signal_type sg = ''SELL'' \<and> get_position (e_portfolio eng) (sg_symbol sg) = Some pos \<longrightarrow>
      process_signal eng sg =
        Inr (eng\<lparr>e_portfolio :=
               update_position (e_portfolio eng) (sg_symbol sg) (quantity pos)
                 (sg_price sg * (1 - slippage eng)) ''SELL'' (commission eng)\<rparr>)
      \<and> get_position
          (update_position (e_portfolio eng) (sg_symbol sg) (quantity pos)
             (sg_price sg * (1 - slippage eng)) ''SELL'' (commission eng)) (sg_symbol sg) = None)"
proof (intro conjI allI impI)
  assume "signal_type sg = ''BUY'' \<and> has_position (e_portfolio eng) (sg_symbol sg)"
  then show "process_signal eng sg = Inr eng" by (simp add: process_signal_def)
next
  assume a: "signal_type sg = ''BUY'' \<and> \<not> has_position (e_portfolio eng) (sg_symbol sg)
        \<and> 0 < calculate_position_size (e_risk_manager eng) (e_portfolio eng) (sg_price sg) (2 / 100)
        \<and> check_trade (e_risk_manager eng) (e_portfolio eng) (sg_symbol sg)
             (calculate_position_size (e_risk_manager eng) (e_portfolio eng) (sg_price sg) (2 / 100))
             (sg_price sg) ''BUY'' = Inr (True, why)"
  then show "process_signal eng sg =
        Inr (eng\<lparr>e_portfolio :=
               update_position (e_portfolio eng) (sg_symbol sg)
                 (calculate_position_size (e_risk_manager eng) (e_portfolio eng) (sg_price sg)
                    (2 / 100))
                 (sg_price sg * (1 + slippage eng)) ''BUY'' (commission eng)\<rparr>)"
    by (simp add: process_signal_def Let_def)
next
  assume "signal_type sg = ''SELL'' \<and> \<not> has_position (e_portfolio eng) (sg_symbol sg)"
  then show "process_signal eng sg = Inr eng" by (simp add: process_signal_def)
next
  fix pos
  assume a: "signal_type sg = ''SELL'' \<and> get_position (e_portfolio eng) (sg_symbol sg) = Some pos"
  then have h: "has_position (e_portfolio eng) (sg_symbol sg)"
    by (simp add: has_position_def get_position_def)
  from a h check_sell_held[of "e_portfolio eng" "sg_symbol sg" pos]
  show "process_signal eng sg =
        Inr (eng\<lparr>e_portfolio :=
               update_position (e_portfolio eng) (sg_symbol sg) (quantity pos)
                 (sg_price sg * (1 - slippage eng)) ''SELL'' (commission eng)\<rparr>)"
    by (simp add: process_signal_def Let_def)
next
  fix pos
  assume a: "signal_type sg = ''SELL'' \<and> get_position (e_portfolio eng) (sg_symbol sg) = Some pos"
  then show "get_position
          (update_position (e_portfolio eng) (sg_symbol sg) (quantity pos)
             (sg_price sg * (1 - slippage eng)) ''SELL'' (commission eng)) (sg_symbol sg) = None"
    by (simp add: update_position_def Let_def upper_SELL get_position_def delete_conv')
qed

lemmas engine_defs = example_engine_def example_config_def BacktestEngine_init_def py_or_def
  RiskManager_init_def Portfolio_init_def MAX_POSITION_SIZE_def MAX_DRAWDOWN_THRESHOLD_def

text \<open>
  The theorem at work on the example engine (capital 100000, slippage 0.001, no
  commission): a BUY at 50 is sized at 200 shares and filled at 50.05; a second BUY
  is ignored; a SELL with nothing held is ignored; a SELL at 60 sells the 200 shares
  at 59.94 and empties the positions.
\<close>

theorem process_signal_routing_witness:
  "process_signal example_engine (example_signal ''BUY'' 50) = Inr example_held
   \<and> cash (e_portfolio example_held) = 100000 - (200 * (50 * (1 + 1 / 1000)) + 0)
   \<and> process_signal example_held (example_signal ''BUY'' 55) = Inr example_held
   \<and> process_signal example_engine (example_signal ''SELL'' 60) = Inr example_engine
   \<and> process_signal example_held (example_signal ''SELL'' 60) =
       Inr (example_held\<lparr>e_portfolio :=
              update_position (e_portfolio example_held) ''A'' 200 (60 * (1 - 1 / 1000))
                ''SELL'' 0\<rparr>)
   \<and> positions (update_position (e_portfolio example_held) ''A'' 200 (60 * (1 - 1 / 1000))
                  ''SELL'' 0) = []"
proof -
  have n: "\<not> has_position (e_portfolio example_engine) ''A''"
    by (simp add: has_position_def engine_defs)
  have q: "calculate_position_size (e_risk_manager example_engine) (e_portfolio example_engine)
             50 (2 / 100) = 200"
    by code_simp
  have ok: "check_trade (e_risk_manager example_engine) (e_portfolio example_engine) ''A'' 200 50
              ''BUY'' = Inr (True, Trade_approved)"
    by code_simp
  have h: "get_position (e_portfolio example_held) ''A''
             = Some ((Position_init ''A'' 200 (50 * (1 + 1 / 1000))))"
    by code_simp
  have hp: "has_position (e_portfolio example_held) ''A''"
    using h by (simp add: has_position_def get_position_def)
  have f: "sg_symbol (example_signal ty p) = ''A''" "signal_type (example_signal ty p) = ty"
    "sg_price (example_signal ty p) = p" for ty p
    by (simp_all add: example_signal_def)
  have sl: "slippage example_engine = 1 / 1000" "commission example_engine = 0"
    "slippage example_held = 1 / 1000" "commission example_held = 0"
    by (simp_all add: example_held_def engine_defs)
  note buy = process_signal_routing[of "example_signal ''BUY'' 50" example_engine Trade_approved]
  note again = process_signal_routing[of "example_signal ''BUY'' 55" example_held Trade_approved]
  note sell0 = process_signal_routing[of "example_signal ''SELL'' 60" example_engine Trade_approved]
  note sell = process_signal_routing[of "example_signal ''SELL'' 60" example_held Trade_approved]
  have 1: "process_signal example_engine (example_signal ''BUY'' 50) = Inr example_held"
    using buy n q ok by (simp add: f sl example_held_def)
  have 2: "cash (e_portfolio example_held) = 100000 - (200 * (50 * (1 + 1 / 1000)) + 0)"
    by code_simp
  have 3: "process_signal example_held (example_signal ''BUY'' 55) = Inr example_held"
    using again hp by (simp add: f)
  have 4: "process_signal example_engine (example_signal ''SELL'' 60) = Inr example_engine"
    using sell0 n by (simp add: f)
  have 5: "process_signal example_held (example_signal ''SELL'' 60) =
       Inr (example_held\<lparr>e_portfolio :=
              update_position (e_portfolio example_held) ''A'' 200 (60 * (1 - 1 / 1000))
                ''SELL'' 0\<rparr>)"
    using sell h by (simp add: f sl Position_init_def)
  have 6: "positions (update_position (e_portfolio example_held) ''A'' 200 (60 * (1 - 1 / 1000))
                  ''SELL'' 0) = []"
    by code_simp
  from 1 2 3 4 5 6 show ?thesis by blast
qed


section \<open>The maximum drawdown and its duration\<close>

text \<open>
  C7. The loop of \<^const>\<open>max_drawdown\<close> starts the peak at the first value and then
  visits that first value: it is not above the peak, so it is counted as one step of
  drawdown. On the curve 100, 90, 80, 110 two points are strictly below the running
  peak, and the source reports a duration of 3; on the single point 100 it reports 1.
  After a later peak the point that sets the peak is not counted.
\<close>

theorem max_drawdown_duration_initial_point:
  "max_drawdown (map cash_point [100, 90, 80, 110]) = Inr (1 / 5, 3)
   \<and> spec_max_dd_duration (map cash_point [100, 90, 80, 110]) = 2
   \<and> max_drawdown [cash_point 100] = Inr (0, 1)
   \<and> spec_max_dd_duration [cash_point 100] = 0"
  by (simp add: max_drawdown_def spec_max_dd_duration_def cash_point_def)

text \<open>
  \<^const>\<open>get_drawdown\<close> guards a peak of 0; \<^const>\<open>max_drawdown\<close> does not, and a
  curve that starts at 0 raises.
\<close>

lemma max_drawdown_zero_peak_raises: "max_drawdown [cash_point 0] = Inl ZeroDivisionError"
  by (simp add: max_drawdown_def cash_point_def)

text \<open>
  The other half of C7 holds on every curve that starts above 0: the function returns,
  and the reported maximum drawdown is the largest \<open>(peak - value) / peak\<close> against
  the running peak.
\<close>

lemma max_drawdown_loop_value:
  assumes "0 < peak" and "0 \<le> md"
  shows "\<exists>d. max_drawdown_loop vs peak md dur cur = Inr (fold max (drawdowns peak vs) md, d)"
  using assms
proof (induction vs arbitrary: peak md dur cur)
  case Nil
  show ?case by simp
next
  case (Cons v vs)
  show ?case
  proof (cases "v > peak")
    case True
    then have m: "max peak v = v" and v: "0 < v" using Cons.prems by simp_all
    from Cons.IH[OF v Cons.prems(2), of dur 0] True m Cons.prems
    show ?thesis by (simp add: max.commute)
  next
    case False
    then have m: "max peak v = peak" by simp
    have "0 \<le> max md ((peak - v) / peak)" using Cons.prems by simp
    from Cons.IH[OF Cons.prems(1) this, of "max dur (cur + 1)" "cur + 1"] False m Cons.prems
    show ?thesis by (simp add: max.commute)
  qed
qed

lemma max_drawdown_value:
  assumes "curve \<noteq> []" and "0 < ep_value (hd curve)"
  shows "\<exists>d. max_drawdown curve
              = Inr (Max (set (drawdowns (ep_value (hd curve)) (map ep_value curve))), d)"
proof -
  obtain e es where c: "curve = e # es" using assms(1) by (cases curve) auto
  have v: "0 < ep_value e" using assms(2) c by simp
  from max_drawdown_loop_value[OF v, of 0 "map ep_value curve" 0 0]
  obtain d where d: "max_drawdown_loop (map ep_value curve) (ep_value e) 0 0 0
                       = Inr (fold max (drawdowns (ep_value e) (map ep_value curve)) 0, d)"
    by auto
  have "drawdowns (ep_value e) (map ep_value curve)
          = 0 # drawdowns (ep_value e) (map ep_value es)"
    using c v by simp
  then have "Max (set (drawdowns (ep_value e) (map ep_value curve)))
               = fold max (drawdowns (ep_value e) (map ep_value curve)) 0"
    by (simp add: Max.set_eq_fold del: set_simps)
  with d c show ?thesis by (auto simp: max_drawdown_def)
qed


section \<open>Runs without trades\<close>

lemma process_signal_cases:
  assumes "process_signal eng sg = Inr eng'"
  shows "e_initial_capital eng' = e_initial_capital eng
       \<and> (e_portfolio eng' = e_portfolio eng \<or> trades (e_portfolio eng') \<noteq> [])"
  using assms
  by (auto simp: process_signal_def Let_def update_position_trades_nonempty
           split: if_splits option.splits sum.splits prod.splits)

lemma process_signal_inv:
  assumes "process_signal eng sg = Inr eng'" and "engine_inv c eng"
  shows "engine_inv c eng'"
  using process_signal_cases[OF assms(1)] assms(2)
  by (auto simp: engine_inv_def no_trades_inv_def)

lemma run_symbols_inv:
  "run_symbols on_bar date symbols eng = Inr eng' \<Longrightarrow> engine_inv c eng \<Longrightarrow> engine_inv c eng'"
proof (induction symbols arbitrary: eng)
  case Nil
  then show ?case by simp
next
  case (Cons smb rest)
  show ?case
  proof (cases "map_of (e_data eng) smb")
    case None
    then show ?thesis using Cons by simp
  next
    case (Some df)
    show ?thesis
    proof (cases "map_of df date")
      case None
      then show ?thesis using Cons Some by simp
    next
      case (Some row)
      let ?eng1 = "eng\<lparr>current_prices := AList.update smb (b_close row) (current_prices eng)\<rparr>"
      let ?ev = "\<lparr>be_symbol = smb, be_timestamp = date, be_open = b_open row,
                  be_high = b_high row, be_low = b_low row, be_close = b_close row,
                  be_volume = b_volume row\<rparr>"
      let ?eng2 = "?eng1\<lparr>strategy := fst (on_bar (strategy ?eng1) ?ev)\<rparr>"
      have inv2: "engine_inv c ?eng2" using Cons.prems(2) by (simp add: engine_inv_def)
      show ?thesis
      proof (cases "snd (on_bar (strategy ?eng1) ?ev)")
        case None
        then have "run_symbols on_bar date rest ?eng2 = Inr eng'"
          using Cons.prems(1) \<open>map_of (e_data eng) smb = Some df\<close> Some by (simp add: Let_def)
        from Cons.IH[OF this inv2] show ?thesis .
      next
        case (Some sg)
        then obtain eng3 where p: "process_signal ?eng2 sg = Inr eng3"
          and r: "run_symbols on_bar date rest eng3 = Inr eng'"
          using Cons.prems(1) \<open>map_of (e_data eng) smb = Some df\<close> \<open>map_of df date = Some row\<close>
          by (auto simp: Let_def split: sum.splits)
        from Cons.IH[OF r process_signal_inv[OF p inv2]] show ?thesis .
      qed
    qed
  qed
qed

lemma update_prices_inv: "no_trades_inv c pf \<Longrightarrow> no_trades_inv c (update_prices pf prices)"
  by (auto simp: no_trades_inv_def update_prices_def calculate_portfolio_value_def Let_def
                 fold_reprice_Nil)

lemma run_dates_inv:
  "run_dates on_bar symbols dates eng = Inr eng' \<Longrightarrow> engine_inv c eng \<Longrightarrow> engine_inv c eng'"
proof (induction dates arbitrary: eng)
  case Nil
  then show ?case by simp
next
  case (Cons date rest)
  show ?case
  proof (cases "fst (should_stop_trading (e_risk_manager eng) (e_portfolio eng))")
    case True
    then show ?thesis using Cons.prems by simp
  next
    case False
    then obtain eng1 where s: "run_symbols on_bar date symbols eng = Inr eng1"
      and r: "run_dates on_bar symbols rest
                (eng1\<lparr>e_portfolio := update_prices (e_portfolio eng1) (current_prices eng1)\<rparr>)
              = Inr eng'"
      using Cons.prems(1) by (auto split: sum.splits)
    have "engine_inv c eng1" by (rule run_symbols_inv[OF s Cons.prems(2)])
    then have "engine_inv c
                 (eng1\<lparr>e_portfolio := update_prices (e_portfolio eng1) (current_prices eng1)\<rparr>)"
      by (simp add: engine_inv_def update_prices_inv)
    from Cons.IH[OF r this] show ?thesis .
  qed
qed

lemma engine_inv_init:
  "engine_inv (py_or ic (INITIAL_CAPITAL cfg))
     ((BacktestEngine_init cfg strat ic com sl)\<lparr>e_data := dat\<rparr>)"
  by (simp add: engine_inv_def no_trades_inv_def BacktestEngine_init_def Portfolio_init_def)

lemma pct_change_replicate:
  "c \<noteq> 0 \<Longrightarrow> pct_change (replicate n c) = Inr (replicate (n - 1) 0)"
proof (induction n)
  case 0
  show ?case by simp
next
  case (Suc n)
  show ?case
  proof (cases n)
    case 0
    then show ?thesis by simp
  next
    case (Suc k)
    then show ?thesis using Suc.IH Suc.prems by simp
  qed
qed

lemma mean_replicate_zero: "mean (replicate k 0) = 0"
  by (simp add: mean_def sum_list_replicate)

lemma pd_std_replicate_zero: "2 \<le> k \<Longrightarrow> pd_std (replicate k 0) = Some 0"
  by (simp add: pd_std_def mean_replicate_zero sum_list_replicate)

lemma sharpe_ratio_replicate_zero: "k \<noteq> 1 \<Longrightarrow> sharpe_ratio (replicate k 0) rf ppy = Some 0"
proof (cases "k = 0")
  case True
  then show ?thesis by (simp add: sharpe_ratio_def)
next
  case False
  assume "k \<noteq> 1"
  with False have "2 \<le> k" by simp
  then show ?thesis by (simp add: sharpe_ratio_def pd_std_replicate_zero)
qed

lemma calculate_returns_flat:
  assumes "\<forall>e \<in> set curve. ep_value e = c" and "c \<noteq> 0"
  shows "calculate_returns curve = Inr (replicate (length curve - 1) 0)"
proof -
  have "map ep_value curve = replicate (length curve) c"
    using assms(1) by (induction curve) simp_all
  then show ?thesis using assms(2) by (simp add: calculate_returns_def pct_change_replicate)
qed

lemma calculate_all_metrics_no_trades:
  assumes "calculate_all_metrics curve [] c rf = Inr mo" and "curve \<noteq> []"
      and "\<forall>e \<in> set curve. ep_value e = c"
  shows "\<exists>m. mo = Some m \<and> m_total_trades m = 0 \<and> m_win_rate m = 0 \<and> m_profit_factor m = 0
            \<and> (length curve \<noteq> 2 \<longrightarrow> m_sharpe_ratio m = Some 0)"
proof -
  have c: "c \<noteq> 0" using assms(1,2)
    by (auto simp: calculate_all_metrics_def split: sum.splits if_splits)
  have r: "calculate_returns curve = Inr (replicate (length curve - 1) 0)"
    by (rule calculate_returns_flat[OF assms(3) c])
  have "length curve \<noteq> 2 \<Longrightarrow> length curve - 1 \<noteq> 1" by simp
  then show ?thesis using assms(1,2) c r
    by (auto simp: calculate_all_metrics_def Let_def sharpe_ratio_replicate_zero
             split: sum.splits prod.splits)
qed

text \<open>
  C8 (as amended). For an engine fresh from its constructor with any tables loaded,
  a run that returns with no trade recorded and at least one equity point has a
  metrics record with total trades 0, win rate 0 and profit factor 0; its Sharpe ratio
  is 0 when the equity curve does not have exactly two points.
\<close>

theorem run_without_trades:
  assumes "run on_bar ((BacktestEngine_init cfg strat ic com sl)\<lparr>e_data := dat\<rparr>) symbols
             = Inr (eng', res)"
      and "r_trades res = []"
      and "r_equity_curve res \<noteq> []"
  shows "\<exists>m. r_metrics res = Some m \<and> m_total_trades m = 0 \<and> m_win_rate m = 0
            \<and> m_profit_factor m = 0
            \<and> (length (r_equity_curve res) \<noteq> 2 \<longrightarrow> m_sharpe_ratio m = Some 0)"
proof -
  let ?c = "py_or ic (INITIAL_CAPITAL cfg)"
  let ?eng = "(BacktestEngine_init cfg strat ic com sl)\<lparr>e_data := dat\<rparr>"
  obtain syms dates where d: "run_dates on_bar syms dates ?eng = Inr eng'"
    and g: "generate_results eng' = Inr res"
    using assms(1) by (auto simp: run_def Let_def split: if_splits sum.splits)
  have inv: "engine_inv ?c eng'" by (rule run_dates_inv[OF d engine_inv_init])
  from g obtain mo where
    m: "calculate_all_metrics (equity_curve (e_portfolio eng')) (trades (e_portfolio eng'))
          (e_initial_capital eng') (2 / 100) = Inr mo"
    and res: "r_metrics res = mo" "r_trades res = trades (e_portfolio eng')"
             "r_equity_curve res = equity_curve (e_portfolio eng')"
    by (auto simp: generate_results_def split: sum.splits)
  have t: "trades (e_portfolio eng') = []" using assms(2) res by simp
  have flat: "\<forall>e \<in> set (equity_curve (e_portfolio eng')). ep_value e = ?c"
    and ic: "e_initial_capital eng' = ?c"
    using inv t by (simp_all add: engine_inv_def no_trades_inv_def)
  have ne: "equity_curve (e_portfolio eng') \<noteq> []" using assms(3) res by simp
  from calculate_all_metrics_no_trades[OF m[unfolded t ic] ne flat] res show ?thesis by simp
qed

lemmas run_eval = example_run_def example_tables_def run_def all_dates_def never_signal_def
  flat_bar_def example_config_def BacktestEngine_init_def py_or_def RiskManager_init_def
  Portfolio_init_def should_stop_trading_def get_drawdown_def update_prices_def
  calculate_portfolio_value_def reprice_def generate_results_def calculate_all_metrics_def
  calculate_returns_def sharpe_ratio_def pd_std_def mean_def max_drawdown_def get_summary_def
  get_total_return_def MAX_POSITION_SIZE_def MAX_DRAWDOWN_THRESHOLD_def

text \<open>The theorem at work: three dates of one symbol and a strategy that never signals.\<close>

theorem run_without_trades_witness:
  "map_sum id (r_trades \<circ> snd) (example_run [1, 2, 3]) = Inr []
   \<and> map_sum id (length \<circ> r_equity_curve \<circ> snd) (example_run [1, 2, 3]) = Inr 3
   \<and> map_sum id (map_option m_total_trades \<circ> r_metrics \<circ> snd) (example_run [1, 2, 3])
       = Inr (Some 0)
   \<and> map_sum id (map_option m_win_rate \<circ> r_metrics \<circ> snd) (example_run [1, 2, 3])
       = Inr (Some 0)
   \<and> map_sum id (map_option m_profit_factor \<circ> r_metrics \<circ> snd) (example_run [1, 2, 3])
       = Inr (Some 0)
   \<and> map_sum id (map_option m_sharpe_ratio \<circ> r_metrics \<circ> snd) (example_run [1, 2, 3])
       = Inr (Some (Some 0))"
proof -
  have "\<exists>eng' res. example_run [1, 2, 3] = Inr (eng', res)
          \<and> r_trades res = [] \<and> length (r_equity_curve res) = 3"
    by (simp add: run_eval)
  then obtain eng' res where r: "example_run [1, 2, 3] = Inr (eng', res)"
    and t: "r_trades res = []" and l: "length (r_equity_curve res) = 3"
    by blast
  from l have ne: "r_equity_curve res \<noteq> []" by auto
  from run_without_trades[OF r[unfolded example_run_def] t ne] l
  obtain m where "r_metrics res = Some m" "m_total_trades m = 0" "m_win_rate m = 0"
    "m_profit_factor m = 0" "m_sharpe_ratio m = Some 0"
    by auto
  with r t l show ?thesis by simp
qed

text \<open>
  A run over a table without rows returns with no trade and no equity point; the
  metrics are the empty dictionary, so the result has no total trades, win rate,
  profit factor or Sharpe ratio at all.
\<close>

theorem run_without_trades_counterexample:
  "map_sum id (r_trades \<circ> snd) (example_run []) = Inr []
   \<and> map_sum id (r_equity_curve \<circ> snd) (example_run []) = Inr []
   \<and> map_sum id (r_metrics \<circ> snd) (example_run []) = Inr None"
  by (simp add: run_eval)

text \<open>
  With exactly two dates there is one return; its sample deviation is NaN, the guard
  \<^verbatim>\<open>returns.std() == 0\<close> does not catch it and the Sharpe ratio is NaN.
\<close>

lemma run_two_dates_sharpe_nan:
  "map_sum id (r_trades \<circ> snd) (example_run [1, 2]) = Inr []
   \<and> map_sum id (length \<circ> r_equity_curve \<circ> snd) (example_run [1, 2]) = Inr 2
   \<and> map_sum id (map_option m_sharpe_ratio \<circ> r_metrics \<circ> snd) (example_run [1, 2])
       = Inr (Some None)"
  by (simp add: run_eval)

end
